theory Spec2Isabelle
  imports Complex_Main
begin

section \<open>The shared helper module \<open>monitoring_util.py\<close>\<close>

subsection \<open>Nagios return codes\<close>

text \<open>
  The module starts with \<open>OK = 0\<close>, \<open>WARNING = 1\<close>, \<open>CRITICAL = 2\<close>, \<open>UNKNOWN = 3\<close>.
  \<open>OK\<close> is never assigned again. The other three are module globals that
  \<open>Plugin_Check.parse\<close> reassigns (\<open>global UNKNOWN, WARNING, CRITICAL\<close>), so every
  function that reads one of them takes the current globals as an argument.
\<close>

definition OK :: int where
  "OK = 0"

record globals =
  WARNING :: int
  CRITICAL :: int
  UNKNOWN :: int

definition module_globals :: globals where
  "module_globals = \<lparr>WARNING = 1, CRITICAL = 2, UNKNOWN = 3\<rparr>"

text \<open>
  The two dictionaries are built once, when the module is loaded, from the initial
  values of the four codes.
\<close>

definition str_to_errstat :: "string \<rightharpoonup> int" where
  "str_to_errstat =
     map_of [(''ok'', 0), (''warning'', 1), (''critical'', 2), (''unknown'', 3)]"

definition errstat_to_str :: "int \<rightharpoonup> string" where
  "errstat_to_str =
     map_of [(0, ''OK''), (1, ''WARNING''), (2, ''CRITICAL''), (3, ''UNKNOWN'')]"

datatype error = ValueError string | TypeError | KeyError

subsection \<open>Numbers and their comparison\<close>

text \<open>
  The bounds of a range and the measured values are Python numbers: the \<open>int\<close>s \<open>0\<close>
  and \<open>sys.maxsize\<close>, and \<open>float\<close>s. Python compares an \<open>int\<close> with a \<open>float\<close> by
  their exact values, so a finite number is modelled by the real it denotes; the two
  infinities and the not-a-number of \<open>float\<close> are values of their own. Every ordering
  comparison with a not-a-number is false.
\<close>

datatype number = Num real | PInf | NInf | NaN

fun py_lt :: "number \<Rightarrow> number \<Rightarrow> bool" where
  "py_lt NaN _ = False"
| "py_lt _ NaN = False"
| "py_lt (Num a) (Num b) = (a < b)"
| "py_lt (Num a) PInf = True"
| "py_lt (Num a) NInf = False"
| "py_lt PInf _ = False"
| "py_lt NInf NInf = False"
| "py_lt NInf _ = True"

definition py_gt :: "number \<Rightarrow> number \<Rightarrow> bool" where
  "py_gt a b = py_lt b a"

text \<open>\<open>sys.maxsize\<close> of CPython on a 64-bit platform.\<close>

definition sys_maxsize :: int where
  "sys_maxsize = 9223372036854775807"

subsection \<open>String operations of the Python library\<close>

definition startswith :: "string \<Rightarrow> string \<Rightarrow> bool" where
  "startswith s p = (take (length p) s = p)"

text \<open>\<open>s.split(c)\<close> for a separator of one character: one more piece than separators.\<close>

primrec split_str :: "string \<Rightarrow> char \<Rightarrow> string list" where
  "split_str [] c = [[]]"
| "split_str (x # xs) c =
     (if x = c then [] # split_str xs c
      else (case split_str xs c of [] \<Rightarrow> [[x]] | y # ys \<Rightarrow> (x # y) # ys))"

text \<open>
  A fragment of the builtin \<open>float\<close>, used to run the model on examples: on a
  non-empty string of decimal digits it is the number written, which is what \<open>float\<close>
  returns whenever that number is a float, as for every literal used below. On other
  strings it is not \<open>float\<close>: it has no sign, fraction, exponent or infinity, and does
  not round. The model of \<open>Check_Range\<close> does not depend on it: it takes the conversion
  as an argument, \<open>None\<close> standing for the \<open>ValueError\<close> that \<open>float\<close> raises.
\<close>

definition float_digits :: "string \<Rightarrow> number option" where
  "float_digits s =
     (if s \<noteq> [] \<and> list_all (\<lambda>c. c \<in> set ''0123456789'') s
      then Some (Num (real (foldl (\<lambda>a c. 10 * a + (of_char c - 48)) 0 s)))
      else None)"

subsection \<open>The class \<open>Response\<close>\<close>

record Response =
  status :: int
  perfdata :: "string option"
  details :: "string list option"

definition Response_init :: "globals \<Rightarrow> Response" where
  "Response_init g = \<lparr>status = UNKNOWN g, perfdata = None, details = None\<rparr>"

definition set_status :: "int \<Rightarrow> Response \<Rightarrow> Response" where
  "set_status st r = (if st > status r then r\<lparr>status := st\<rparr> else r)"

definition add_detail :: "string \<Rightarrow> Response \<Rightarrow> Response" where
  "add_detail msg r =
     r\<lparr>details := Some ((case details r of None \<Rightarrow> [] | Some ds \<Rightarrow> ds) @ [msg])\<rparr>"

text \<open>
  \<open>exit\<close> prints one string and ends the process: the model returns what is written to
  standard output (\<open>print\<close> ends it with a newline) and the exit code. The lookup
  \<open>errstat_to_str[self.status]\<close> raises \<open>KeyError\<close> on a status that is not a key.
\<close>

definition newline :: char where
  "newline = CHR 0x0A"

definition exit :: "int option \<Rightarrow> string option \<Rightarrow> Response \<Rightarrow> error + (string \<times> int)" where
  "exit st msg r =
     (let r1 = (case st of None \<Rightarrow> r | Some v \<Rightarrow> r\<lparr>status := v\<rparr>) in
      case errstat_to_str (status r1) of
        None \<Rightarrow> Inl KeyError
      | Some name \<Rightarrow>
          (let s0 = name;
               s1 = (case msg of None \<Rightarrow> s0 | Some m \<Rightarrow> s0 @ '' '' @ m);
               s2 = (case perfdata r1 of None \<Rightarrow> s1 | Some p \<Rightarrow> s1 @ ''|'' @ p);
               s3 = (case details r1 of
                       None \<Rightarrow> s2
                     | Some ds \<Rightarrow> foldl (\<lambda>s detail. s @ newline # detail) s2 ds)
           in Inr (s3 @ [newline], status r1)))"

subsection \<open>The class \<open>Check_Range\<close>\<close>

record Check_Range =
  range_str :: string
  inside :: bool
  start :: number
  end' :: number

text \<open>
  The constructor. With no \<open>:\<close> in the specification the source evaluates
  \<open>float(range)\<close>: the name \<open>range\<close> is neither the parameter (\<open>range_arg\<close> here) nor the
  attribute \<open>self.range\<close> but the builtin type, and \<open>float\<close> of a type raises
  \<open>TypeError\<close>.
\<close>

definition Check_Range_init :: "(string \<Rightarrow> number option) \<Rightarrow> string \<Rightarrow> error + Check_Range" where
  "Check_Range_init float range_arg =
     (let inside0 = startswith range_arg ''@'';
          range1 = (if inside0 then drop 1 range_arg else range_arg);
          tmp = split_str range1 CHR '':''
      in if length tmp > 2 then Inl (ValueError ''Invalid range'')
         else if length tmp = 2 then
           (case (if tmp ! 0 \<noteq> [] then float (tmp ! 0) else Some (Num 0)) of
              None \<Rightarrow> Inl (ValueError ''could not convert string to float'')
            | Some start0 \<Rightarrow>
                (case (if tmp ! 1 \<noteq> [] then float (tmp ! 1)
                       else Some (Num (of_int sys_maxsize))) of
                   None \<Rightarrow> Inl (ValueError ''could not convert string to float'')
                 | Some end0 \<Rightarrow>
                     if py_gt start0 end0
                     then Inl (ValueError ''Start must be lower than end'')
                     else Inr \<lparr>range_str = range1, inside = inside0,
                               start = start0, end' = end0\<rparr>))
         else Inl TypeError)"

definition check :: "Check_Range \<Rightarrow> number \<Rightarrow> bool" where
  "check r v = (py_lt v (start r) \<or> py_gt v (end' r))"

definition check_warn_crit :: "globals \<Rightarrow> Check_Range \<Rightarrow> number \<Rightarrow> int" where
  "check_warn_crit g r v =
     (if py_gt v (end' r) then CRITICAL g
      else if py_gt v (start r) then WARNING g
      else OK)"

section \<open>Properties\<close>

subsection \<open>The status of a \<open>Response\<close>\<close>

lemma status_set_status: "status (set_status st r) = max (status r) st"
  by (simp add: set_status_def max_def)

lemma status_add_detail: "status (add_detail d r) = status r"
  by (simp add: add_detail_def)

lemma status_fold_set_status: "status r \<le> status (fold set_status sts r)"
proof (induction sts arbitrary: r)
  case Nil
  show ?case by simp
next
  case (Cons st sts)
  have "status r \<le> status (set_status st r)"
    by (simp add: status_set_status)
  also have "\<dots> \<le> status (fold set_status sts (set_status st r))"
    by (rule Cons.IH)
  finally show ?case by simp
qed

text \<open>
  C10: the stored status never decreases. After one \<open>set_status\<close> call, and after any
  sequence of them, the status is at least what it was before; a status that is not
  greater than the stored one leaves the object as it is; a fresh object starts at
  \<open>UNKNOWN\<close>, which is 3 when the module is loaded.
\<close>

theorem set_status_monotone:
  "status r \<le> status (set_status st r) \<and>
   status r \<le> status (fold set_status sts r) \<and>
   (st \<le> status r \<longrightarrow> set_status st r = r) \<and>
   status (Response_init g) = UNKNOWN g \<and>
   status (Response_init module_globals) = 3"
proof -
  have "status r \<le> status (set_status st r)"
    by (simp add: status_set_status)
  moreover have "status r \<le> status (fold set_status sts r)"
    by (rule status_fold_set_status)
  moreover have "st \<le> status r \<longrightarrow> set_status st r = r"
    by (simp add: set_status_def)
  moreover have "status (Response_init g) = UNKNOWN g"
    by (simp add: Response_init_def)
  moreover have "status (Response_init module_globals) = 3"
    by (simp add: Response_init_def module_globals_def)
  ultimately show ?thesis by blast
qed

theorem set_status_monotone_witness:
  "(1::int) \<le> 2 \<and>
   set_status 1 \<lparr>status = 2, perfdata = None, details = None\<rparr> =
     \<lparr>status = 2, perfdata = None, details = None\<rparr> \<and>
   (2::int) \<le> status (fold set_status [0, 3, 1] \<lparr>status = 2, perfdata = None, details = None\<rparr>)"
  using set_status_monotone [of "\<lparr>status = 2, perfdata = None, details = None\<rparr>" 1 "[0, 3, 1]"]
  by simp

subsection \<open>Splitting a specification\<close>

lemma length_split_str: "length (split_str s c) = Suc (count_list s c)"
  by (induction s) (auto split: list.splits)

lemma split_str_no_sep: "c \<notin> set s \<Longrightarrow> split_str s c = [s]"
  by (induction s) auto

lemma split_str_append: "c \<notin> set l \<Longrightarrow> split_str (l @ c # r) c = l # split_str r c"
  by (induction l) auto

lemma init_no_colon: "CHR '':'' \<notin> set s \<Longrightarrow> Check_Range_init pf s = Inl TypeError"
proof -
  assume a: "CHR '':'' \<notin> set s"
  then have "CHR '':'' \<notin> set (drop 1 s)"
    by (meson in_set_dropD)
  with a show ?thesis
    by (simp add: Check_Range_init_def Let_def split_str_no_sep)
qed

lemma init_many_colons:
  assumes "2 \<le> count_list s CHR '':''"
  shows "Check_Range_init pf s = Inl (ValueError ''Invalid range'')"
proof -
  have "count_list (drop 1 s) CHR '':'' = count_list s CHR '':''" if "startswith s ''@''"
    using that by (cases s) (auto simp: startswith_def)
  with assms show ?thesis
    by (simp add: Check_Range_init_def Let_def length_split_str)
qed

text \<open>A specification with one \<open>:\<close> and no \<open>@\<close> in front: what the constructor does.\<close>

lemma init_pair:
  assumes "\<not> startswith l ''@''" and "CHR '':'' \<notin> set l" and "CHR '':'' \<notin> set r"
  shows "Check_Range_init pf (l @ CHR '':'' # r) =
    (case (if l \<noteq> [] then pf l else Some (Num 0)) of
       None \<Rightarrow> Inl (ValueError ''could not convert string to float'')
     | Some a \<Rightarrow>
        (case (if r \<noteq> [] then pf r else Some (Num (of_int sys_maxsize))) of
           None \<Rightarrow> Inl (ValueError ''could not convert string to float'')
         | Some b \<Rightarrow>
             if py_gt a b then Inl (ValueError ''Start must be lower than end'')
             else Inr \<lparr>range_str = l @ CHR '':'' # r, inside = False,
                       start = a, end' = b\<rparr>))"
proof -
  have "\<not> startswith (l @ CHR '':'' # r) ''@''"
    using assms(1) by (cases l) (auto simp: startswith_def)
  with assms(2,3) show ?thesis
    by (simp add: Check_Range_init_def Let_def split_str_append split_str_no_sep
          cong: option.case_cong)
qed

text \<open>The \<open>@\<close> in front is taken off, and changes nothing but the flag.\<close>

lemma init_at:
  assumes "\<not> startswith s ''@''"
  shows "Check_Range_init pf (CHR ''@'' # s) =
    (case Check_Range_init pf s of Inl e \<Rightarrow> Inl e | Inr rg \<Rightarrow> Inr (rg\<lparr>inside := True\<rparr>))"
  using assms
  by (auto simp add: Check_Range_init_def Let_def startswith_def split: option.splits)

lemma init_inside: "Check_Range_init pf s = Inr rg \<Longrightarrow> inside rg = startswith s ''@''"
  by (auto simp add: Check_Range_init_def Let_def split: option.splits if_splits)

lemma init_ordered: "Check_Range_init pf s = Inr rg \<Longrightarrow> \<not> py_gt (start rg) (end' rg)"
  by (auto simp add: Check_Range_init_def Let_def split: option.splits if_splits)

subsection \<open>Parsing a range\<close>

text \<open>
  C1: a specification \<open>"N"\<close> with no \<open>:\<close> should give \<open>start = 0\<close>, \<open>end = N\<close>. The
  constructor never gets there: on \<open>"10"\<close> it raises \<open>TypeError\<close>, whatever \<open>float\<close>
  makes of the string, since the conversion is applied to the builtin \<open>range\<close>.
\<close>

theorem init_single_number_raises:
  "Check_Range_init pf ''10'' = Inl TypeError"
  by (rule init_no_colon) simp

text \<open>
  C4: a specification \<open>"A:"\<close> should give an infinite \<open>end\<close>. On \<open>"5:"\<close> the constructor
  stores \<open>sys.maxsize\<close>, a finite number: the value \<open>10 ^ 19\<close> is above it and raises an
  alert, and the same number as a start, in \<open>"10000000000000000000:"\<close>, is rejected.
  With \<open>":5"\<close> the start is 0.
\<close>

theorem init_open_end_is_maxsize:
  "Check_Range_init float_digits ''5:'' =
     Inr \<lparr>range_str = ''5:'', inside = False, start = Num 5,
          end' = Num 9223372036854775807\<rparr> \<and>
   Num 9223372036854775807 \<noteq> PInf \<and>
   check \<lparr>range_str = ''5:'', inside = False, start = Num 5,
          end' = Num 9223372036854775807\<rparr> (Num 10000000000000000000) \<and>
   Check_Range_init float_digits ''10000000000000000000:'' =
     Inl (ValueError ''Start must be lower than end'') \<and>
   Check_Range_init float_digits '':5'' =
     Inr \<lparr>range_str = '':5'', inside = False, start = Num 0, end' = Num 5\<rparr>"
  by (simp add: Check_Range_init_def float_digits_def startswith_def py_gt_def
        sys_maxsize_def check_def)

text \<open>
  C6: the constructor raises \<open>ValueError\<close>, and so builds no object, on every
  specification with two or more \<open>:\<close>, and on every specification \<open>l:r\<close> or \<open>@l:r\<close>
  whose bounds (the converted \<open>l\<close>, or 0 for an empty \<open>l\<close>; the converted \<open>r\<close>, or
  \<open>sys.maxsize\<close> for an empty \<open>r\<close>) have the start greater than the end. An object that
  is built never has its start greater than its end.
\<close>

theorem init_raises_ValueError:
  "(2 \<le> count_list s CHR '':'' \<longrightarrow>
      Check_Range_init pf s = Inl (ValueError ''Invalid range'')) \<and>
   (\<not> startswith l ''@'' \<and> CHR '':'' \<notin> set l \<and> CHR '':'' \<notin> set r \<and>
    (if l \<noteq> [] then pf l else Some (Num 0)) = Some a \<and>
    (if r \<noteq> [] then pf r else Some (Num (of_int sys_maxsize))) = Some b \<and>
    py_gt a b \<longrightarrow>
      Check_Range_init pf (l @ CHR '':'' # r) =
        Inl (ValueError ''Start must be lower than end'') \<and>
      Check_Range_init pf (CHR ''@'' # l @ CHR '':'' # r) =
        Inl (ValueError ''Start must be lower than end'')) \<and>
   (Check_Range_init pf s = Inr rg \<longrightarrow> \<not> py_gt (start rg) (end' rg))"
proof (intro conjI impI)
  assume "2 \<le> count_list s CHR '':''"
  then show "Check_Range_init pf s = Inl (ValueError ''Invalid range'')"
    by (rule init_many_colons)
next
  assume h: "\<not> startswith l ''@'' \<and> CHR '':'' \<notin> set l \<and> CHR '':'' \<notin> set r \<and>
    (if l \<noteq> [] then pf l else Some (Num 0)) = Some a \<and>
    (if r \<noteq> [] then pf r else Some (Num (of_int sys_maxsize))) = Some b \<and>
    py_gt a b"
  then have plain: "Check_Range_init pf (l @ CHR '':'' # r) =
      Inl (ValueError ''Start must be lower than end'')"
    by (simp add: init_pair)
  then show "Check_Range_init pf (l @ CHR '':'' # r) =
      Inl (ValueError ''Start must be lower than end'')" .
  have "\<not> startswith (l @ CHR '':'' # r) ''@''"
    using h by (cases l) (auto simp: startswith_def)
  then show "Check_Range_init pf (CHR ''@'' # l @ CHR '':'' # r) =
      Inl (ValueError ''Start must be lower than end'')"
    by (simp add: init_at plain)
next
  assume "Check_Range_init pf s = Inr rg"
  then show "\<not> py_gt (start rg) (end' rg)"
    by (rule init_ordered)
qed

theorem init_raises_ValueError_witness:
  "2 \<le> count_list ''1:2:3'' CHR '':'' \<and>
   Check_Range_init float_digits ''1:2:3'' = Inl (ValueError ''Invalid range'') \<and>
   float_digits ''10'' = Some (Num 10) \<and> float_digits ''5'' = Some (Num 5) \<and>
   py_gt (Num 10) (Num 5) \<and>
   Check_Range_init float_digits ''10:5'' = Inl (ValueError ''Start must be lower than end'') \<and>
   Check_Range_init float_digits ''@10:5'' = Inl (ValueError ''Start must be lower than end'') \<and>
   Check_Range_init float_digits ''5:10'' =
     Inr \<lparr>range_str = ''5:10'', inside = False, start = Num 5, end' = Num 10\<rparr> \<and>
   \<not> py_gt (Num 5) (Num 10)"
proof -
  have fd: "float_digits ''10'' = Some (Num 10)" "float_digits ''5'' = Some (Num 5)"
    by (simp_all add: float_digits_def)
  have ok: "Check_Range_init float_digits ''5:10'' =
     Inr \<lparr>range_str = ''5:10'', inside = False, start = Num 5, end' = Num 10\<rparr>"
    by (simp add: Check_Range_init_def float_digits_def startswith_def py_gt_def)
  show ?thesis
    using init_raises_ValueError [of "''1:2:3''" float_digits "''10''" "''5''" "Num 10" "Num 5"]
      init_raises_ValueError [of "''5:10''" float_digits "''10''" "''5''" "Num 10" "Num 5"
        "\<lparr>range_str = ''5:10'', inside = False, start = Num 5, end' = Num 10\<rparr>"]
      fd ok
    by (simp add: startswith_def py_gt_def)
qed

text \<open>
  C8: take a specification \<open>l:r\<close>, with no \<open>@\<close> at the front of \<open>l\<close> and no further \<open>:\<close>,
  whose bounds are the numbers \<open>a\<close> (the converted \<open>l\<close>, or 0 for an empty \<open>l\<close>) and \<open>b\<close>
  (the converted \<open>r\<close>, or \<open>sys.maxsize\<close> for an empty \<open>r\<close>), with \<open>a\<close> not greater than
  \<open>b\<close>; so every \<open>A:B\<close> with numbers \<open>A \<le> B\<close>. Then the constructor accepts both \<open>l:r\<close>
  and \<open>@l:r\<close>, and builds the same object for both, with start \<open>a\<close> and end \<open>b\<close>, but
  for the flag \<open>inside\<close>: false for \<open>l:r\<close>, true for \<open>@l:r\<close>. More generally, whenever a
  specification \<open>s\<close> with no \<open>@\<close> in front is accepted, \<open>@s\<close> is accepted with the same
  bounds and the flag set.
\<close>

theorem init_at_same_bounds:
  assumes "\<not> startswith l ''@''" and "CHR '':'' \<notin> set l" and "CHR '':'' \<notin> set r"
    and "(if l \<noteq> [] then pf l else Some (Num 0)) = Some a"
    and "(if r \<noteq> [] then pf r else Some (Num (of_int sys_maxsize))) = Some b"
    and "\<not> py_gt a b"
  shows "Check_Range_init pf (l @ CHR '':'' # r) =
           Inr \<lparr>range_str = l @ CHR '':'' # r, inside = False, start = a, end' = b\<rparr> \<and>
         Check_Range_init pf (CHR ''@'' # l @ CHR '':'' # r) =
           Inr \<lparr>range_str = l @ CHR '':'' # r, inside = True, start = a, end' = b\<rparr> \<and>
         (\<forall>x y. x \<le> y \<longrightarrow> \<not> py_gt (Num x) (Num y)) \<and>
         (\<forall>s rg. \<not> startswith s ''@'' \<and> Check_Range_init pf s = Inr rg \<longrightarrow>
            Check_Range_init pf (CHR ''@'' # s) = Inr (rg\<lparr>inside := True\<rparr>) \<and>
            \<not> inside rg)"
proof (intro conjI allI impI)
  have plain: "Check_Range_init pf (l @ CHR '':'' # r) =
      Inr \<lparr>range_str = l @ CHR '':'' # r, inside = False, start = a, end' = b\<rparr>"
    using assms by (simp add: init_pair)
  then show "Check_Range_init pf (l @ CHR '':'' # r) =
      Inr \<lparr>range_str = l @ CHR '':'' # r, inside = False, start = a, end' = b\<rparr>" .
  have "\<not> startswith (l @ CHR '':'' # r) ''@''"
    using assms(1) by (cases l) (auto simp: startswith_def)
  then show "Check_Range_init pf (CHR ''@'' # l @ CHR '':'' # r) =
      Inr \<lparr>range_str = l @ CHR '':'' # r, inside = True, start = a, end' = b\<rparr>"
    by (simp add: init_at plain)
next
  fix x y :: real
  assume "x \<le> y"
  then show "\<not> py_gt (Num x) (Num y)"
    by (simp add: py_gt_def)
next
  fix s rg
  assume h: "\<not> startswith s ''@'' \<and> Check_Range_init pf s = Inr rg"
  then show "Check_Range_init pf (CHR ''@'' # s) = Inr (rg\<lparr>inside := True\<rparr>)"
    by (simp add: init_at)
  show "\<not> inside rg"
    using h init_inside [of pf s rg] by simp
qed

theorem init_at_same_bounds_witness:
  "\<not> startswith ''10'' ''@'' \<and> CHR '':'' \<notin> set ''10'' \<and> CHR '':'' \<notin> set ''20'' \<and>
   float_digits ''10'' = Some (Num 10) \<and> float_digits ''20'' = Some (Num 20) \<and>
   \<not> py_gt (Num 10) (Num 20) \<and>
   Check_Range_init float_digits ''10:20'' =
     Inr \<lparr>range_str = ''10:20'', inside = False, start = Num 10, end' = Num 20\<rparr> \<and>
   Check_Range_init float_digits ''@10:20'' =
     Inr \<lparr>range_str = ''10:20'', inside = True, start = Num 10, end' = Num 20\<rparr>"
proof -
  have fd: "float_digits ''10'' = Some (Num 10)" "float_digits ''20'' = Some (Num 20)"
    by (simp_all add: float_digits_def)
  have ord: "\<not> py_gt (Num 10) (Num 20)"
    by (simp add: py_gt_def)
  show ?thesis
    using init_at_same_bounds [of "''10''" "''20''" float_digits "Num 10" "Num 20"] fd ord
    by (simp add: startswith_def)
qed

subsection \<open>Checking a value against a range\<close>

text \<open>
  C2: \<open>check\<close> should return the outside test XORed with the flag. It does not: on the
  object built from \<open>"@10:20"\<close>, whose flag is set, the value 15 is inside, and \<open>check\<close>
  returns false where the XOR gives true.
\<close>

theorem check_ignores_inside_counterexample:
  "Check_Range_init float_digits ''@10:20'' =
     Inr \<lparr>range_str = ''10:20'', inside = True, start = Num 10, end' = Num 20\<rparr> \<and>
   check \<lparr>range_str = ''10:20'', inside = True, start = Num 10, end' = Num 20\<rparr> (Num 15)
     \<noteq> ((py_lt (Num 15) (Num 10) \<or> py_gt (Num 15) (Num 20)) \<noteq> True)"
  by (simp add: Check_Range_init_def float_digits_def startswith_def py_gt_def check_def)

text \<open>
  C2, as the code has it: \<open>check\<close> returns true exactly when the value is less than the
  start or greater than the end, whatever the flag \<open>inside\<close> (the constructor stores it,
  nothing reads it). For the range from 0 to 100 the values 0, 50 and 100 raise no alert
  and 150 does; for the range from 10 to 20 with the flag set, 15 raises no alert and 5
  does.
\<close>

theorem check_outside_only:
  "check rg v = (py_lt v (start rg) \<or> py_gt v (end' rg)) \<and>
   check (rg\<lparr>inside := b\<rparr>) v = check rg v \<and>
   \<not> check \<lparr>range_str = ''0:100'', inside = False, start = Num 0, end' = Num 100\<rparr> (Num 0) \<and>
   \<not> check \<lparr>range_str = ''0:100'', inside = False, start = Num 0, end' = Num 100\<rparr> (Num 50) \<and>
   \<not> check \<lparr>range_str = ''0:100'', inside = False, start = Num 0, end' = Num 100\<rparr> (Num 100) \<and>
   check \<lparr>range_str = ''0:100'', inside = False, start = Num 0, end' = Num 100\<rparr> (Num 150) \<and>
   \<not> check \<lparr>range_str = ''10:20'', inside = True, start = Num 10, end' = Num 20\<rparr> (Num 15) \<and>
   check \<lparr>range_str = ''10:20'', inside = True, start = Num 10, end' = Num 20\<rparr> (Num 5)"
  by (simp add: check_def py_gt_def)

text \<open>
  C5: \<open>check_warn_crit\<close> reads the warning bound from \<open>start\<close> and the critical bound
  from \<open>end\<close> of one object. It returns \<open>CRITICAL\<close> when the value is greater than the
  critical bound, otherwise \<open>WARNING\<close> when the value is greater than the warning bound,
  otherwise \<open>OK\<close>. With the bounds 20 and 50 of \<open>"20:50"\<close>, the value 30 gives
  \<open>WARNING\<close>, 60 gives \<open>CRITICAL\<close> and 10 gives \<open>OK\<close>.
\<close>

theorem check_warn_crit_cases:
  assumes "start rg = warn" and "end' rg = crit"
  shows "(py_gt v crit \<longrightarrow> check_warn_crit g rg v = CRITICAL g) \<and>
         (\<not> py_gt v crit \<and> py_gt v warn \<longrightarrow> check_warn_crit g rg v = WARNING g) \<and>
         (\<not> py_gt v crit \<and> \<not> py_gt v warn \<longrightarrow> check_warn_crit g rg v = OK)"
  using assms by (simp add: check_warn_crit_def)

theorem check_warn_crit_cases_witness:
  "Check_Range_init float_digits ''20:50'' =
     Inr \<lparr>range_str = ''20:50'', inside = False, start = Num 20, end' = Num 50\<rparr> \<and>
   py_gt (Num 60) (Num 50) \<and>
   check_warn_crit module_globals
     \<lparr>range_str = ''20:50'', inside = False, start = Num 20, end' = Num 50\<rparr> (Num 60) = 2 \<and>
   \<not> py_gt (Num 30) (Num 50) \<and> py_gt (Num 30) (Num 20) \<and>
   check_warn_crit module_globals
     \<lparr>range_str = ''20:50'', inside = False, start = Num 20, end' = Num 50\<rparr> (Num 30) = 1 \<and>
   \<not> py_gt (Num 10) (Num 50) \<and> \<not> py_gt (Num 10) (Num 20) \<and>
   check_warn_crit module_globals
     \<lparr>range_str = ''20:50'', inside = False, start = Num 20, end' = Num 50\<rparr> (Num 10) = 0"
proof -
  let ?rg = "\<lparr>range_str = ''20:50'', inside = False, start = Num 20, end' = Num 50\<rparr>"
  have p: "Check_Range_init float_digits ''20:50'' = Inr ?rg"
    by (simp add: Check_Range_init_def float_digits_def startswith_def py_gt_def)
  have s: "start ?rg = Num 20" and e: "end' ?rg = Num 50"
    by simp_all
  show ?thesis
    using p check_warn_crit_cases [OF s e, of "Num 60" module_globals]
      check_warn_crit_cases [OF s e, of "Num 30" module_globals]
      check_warn_crit_cases [OF s e, of "Num 10" module_globals]
    by (simp add: py_gt_def module_globals_def OK_def)
qed

subsection \<open>Recording statuses and details\<close>

lemma status_fold_set_status_max: "status (fold set_status sts r) = fold max sts (status r)"
  by (induction sts arbitrary: r) (simp_all add: status_set_status max.commute)

text \<open>
  C3: recording \<open>OK\<close>, \<open>WARNING\<close>, \<open>OK\<close>, \<open>CRITICAL\<close> into a fresh object should leave
  the status \<open>CRITICAL\<close>. A fresh object starts at \<open>UNKNOWN\<close>, the greatest of the
  four codes, and the four calls leave it there.
\<close>

theorem record_into_fresh_counterexample:
  "status
     (add_detail ''d'' (set_status (CRITICAL module_globals)
       (add_detail ''c'' (set_status OK
         (add_detail ''b'' (set_status (WARNING module_globals)
           (add_detail ''a'' (set_status OK
             (Response_init module_globals)))))))))
     = UNKNOWN module_globals \<and>
   UNKNOWN module_globals \<noteq> CRITICAL module_globals"
  by (simp add: status_add_detail status_set_status Response_init_def module_globals_def OK_def)

text \<open>
  C3, as the code has it: a \<open>set_status\<close> call followed by an \<open>add_detail\<close> call leaves
  the status at the maximum of the stored one and the recorded one, and a sequence of
  \<open>set_status\<close> calls at the maximum of them all, the codes being ranked \<open>OK = 0\<close>,
  \<open>WARNING = 1\<close>, \<open>CRITICAL = 2\<close>, \<open>UNKNOWN = 3\<close>. Recording \<open>OK\<close>, \<open>WARNING\<close>, \<open>OK\<close>,
  \<open>CRITICAL\<close> into an object whose status was first assigned \<open>OK\<close> (which is what
  \<open>check_ntp_peers\<close> does before it records) leaves \<open>CRITICAL\<close>; into a fresh object
  it leaves \<open>UNKNOWN\<close>.
\<close>

theorem record_keeps_maximum:
  "status (add_detail d (set_status st r)) = max (status r) st \<and>
   status (fold set_status sts r) = fold max sts (status r) \<and>
   OK = 0 \<and> WARNING module_globals = 1 \<and> CRITICAL module_globals = 2 \<and>
   UNKNOWN module_globals = 3 \<and>
   status
     (add_detail ''d'' (set_status (CRITICAL module_globals)
       (add_detail ''c'' (set_status OK
         (add_detail ''b'' (set_status (WARNING module_globals)
           (add_detail ''a'' (set_status OK
             ((Response_init module_globals)\<lparr>status := OK\<rparr>)))))))))
     = CRITICAL module_globals \<and>
   status
     (add_detail ''d'' (set_status (CRITICAL module_globals)
       (add_detail ''c'' (set_status OK
         (add_detail ''b'' (set_status (WARNING module_globals)
           (add_detail ''a'' (set_status OK
             (Response_init module_globals)))))))))
     = UNKNOWN module_globals"
  by (simp add: status_add_detail status_set_status status_fold_set_status_max
        Response_init_def module_globals_def OK_def)

subsection \<open>The final output\<close>

lemma details_add_detail:
  "details (add_detail d r) = Some ((case details r of None \<Rightarrow> [] | Some ds0 \<Rightarrow> ds0) @ [d])"
  by (simp add: add_detail_def)

lemma details_fold_add_detail_Some:
  "details r = Some ds0 \<Longrightarrow> details (fold add_detail ds r) = Some (ds0 @ ds)"
proof (induction ds arbitrary: r ds0)
  case Nil
  then show ?case by simp
next
  case (Cons d ds)
  have "details (add_detail d r) = Some (ds0 @ [d])"
    using Cons.prems by (simp add: details_add_detail)
  then have "details (fold add_detail ds (add_detail d r)) = Some ((ds0 @ [d]) @ ds)"
    by (rule Cons.IH)
  then show ?case by simp
qed

lemma details_fold_add_detail_None:
  assumes "details r = None"
  shows "details (fold add_detail ds r) = (if ds = [] then None else Some ds)"
proof (cases ds)
  case Nil
  with assms show ?thesis by simp
next
  case (Cons d ds')
  have "details (add_detail d r) = Some [d]"
    using assms by (simp add: details_add_detail)
  then have "details (fold add_detail ds' (add_detail d r)) = Some ([d] @ ds')"
    by (rule details_fold_add_detail_Some)
  with Cons show ?thesis by simp
qed

lemma perfdata_fold_add_detail: "perfdata (fold add_detail ds r) = perfdata r"
  by (induction ds arbitrary: r) (simp_all add: add_detail_def)

lemma status_fold_add_detail: "status (fold add_detail ds r) = status r"
  by (induction ds arbitrary: r) (simp_all add: add_detail_def)

lemma foldl_lines: "foldl (\<lambda>s detail. s @ newline # detail) s0 ds =
    s0 @ concat (map (\<lambda>detail. newline # detail) ds)"
  by (induction ds arbitrary: s0) simp_all

lemma errstat_to_str_Some:
  "errstat_to_str code = Some name \<Longrightarrow>
   (code, name) \<in> {(0, ''OK''), (1, ''WARNING''), (2, ''CRITICAL''), (3, ''UNKNOWN'')}"
  by (auto simp add: errstat_to_str_def split: if_splits)

text \<open>
  C7: on an object with no details yet, after the details \<open>ds\<close> have been added in this
  order, \<open>exit\<close> prints the name of the final status, then a blank and the message when
  there is one, then \<open>|\<close> and the performance data when there is some, then every detail
  of \<open>ds\<close> in the order of \<open>ds\<close>, each after a newline. The exit code is the final status,
  and the printed name is the one of this code: \<open>OK\<close> for 0, \<open>WARNING\<close> for 1,
  \<open>CRITICAL\<close> for 2, \<open>UNKNOWN\<close> for 3. The final status is the one passed to \<open>exit\<close>,
  or the stored one when none is passed.
\<close>

theorem exit_output_format:
  assumes "details r = None"
    and "code = (case st of None \<Rightarrow> status r | Some v \<Rightarrow> v)"
    and "errstat_to_str code = Some name"
  shows "exit st msg (fold add_detail ds r) =
           Inr (name
                @ (case msg of None \<Rightarrow> [] | Some m \<Rightarrow> '' '' @ m)
                @ (case perfdata r of None \<Rightarrow> [] | Some p \<Rightarrow> ''|'' @ p)
                @ concat (map (\<lambda>detail. newline # detail) ds)
                @ [newline],
                code) \<and>
         (code, name) \<in> {(0, ''OK''), (1, ''WARNING''), (2, ''CRITICAL''), (3, ''UNKNOWN'')}"
proof
  show "(code, name) \<in> {(0, ''OK''), (1, ''WARNING''), (2, ''CRITICAL''), (3, ''UNKNOWN'')}"
    using assms(3) by (rule errstat_to_str_Some)
  let ?r = "fold add_detail ds r"
  let ?r1 = "case st of None \<Rightarrow> ?r | Some v \<Rightarrow> ?r\<lparr>status := v\<rparr>"
  have st1: "status ?r1 = code"
    using assms(2) by (simp add: status_fold_add_detail split: option.splits)
  have pd1: "perfdata ?r1 = perfdata r"
    by (simp add: perfdata_fold_add_detail split: option.splits)
  have dt: "details ?r = (if ds = [] then None else Some ds)"
    using assms(1) by (rule details_fold_add_detail_None)
  have dt1: "details ?r1 = (if ds = [] then None else Some ds)"
    by (cases st) (simp_all add: dt)
  show "exit st msg ?r =
           Inr (name
                @ (case msg of None \<Rightarrow> [] | Some m \<Rightarrow> '' '' @ m)
                @ (case perfdata r of None \<Rightarrow> [] | Some p \<Rightarrow> ''|'' @ p)
                @ concat (map (\<lambda>detail. newline # detail) ds)
                @ [newline],
                code)"
    unfolding exit_def Let_def st1 pd1 dt1
    using assms(3) by (simp add: foldl_lines split: option.splits)
qed

theorem exit_output_format_witness:
  "exit (Some 1) (Some ''m'')
     (fold add_detail [''a'', ''b'']
        \<lparr>status = 3, perfdata = Some ''x=1'', details = None\<rparr>) =
     Inr (''WARNING m|x=1'' @ newline # ''a'' @ newline # ''b'' @ [newline], 1)"
proof -
  have n: "errstat_to_str 1 = Some ''WARNING''"
    by (simp add: errstat_to_str_def)
  show ?thesis
    using exit_output_format [of "\<lparr>status = 3, perfdata = Some ''x=1'', details = None\<rparr>"
        1 "Some 1" "''WARNING''" "Some ''m''" "[''a'', ''b'']"] n
    by simp
qed




end
